theory Spec2Isabelle
  imports Main
begin

section \<open>The C binding header of the Holochain core API\<close>

text \<open>
  The source is the single header \<^verbatim>\<open>hc_core_api_c_binding/include/hc_core_api_c_binding.h\<close>:
  \<^verbatim>\<open>
   5  #ifndef HOLOCHAIN_RUST_HC_CORE_C_BINDING_H
   6  #define HOLOCHAIN_RUST_HC_CORE_C_BINDING_H
   7
   8  #include <stdint.h>
   9  #include "../../hc_dna_c_binding/include/hc_dna_c_binding.h"
  10  #ifdef __cplusplus
  11  extern "C" {
  12  #endif
  13
  14  typedef void Holochain;
  15  extern Holochain *hc_new(Dna*);
  16
  17  #ifdef __cplusplus
  18  }
  19  #endif
  22  #endif //HOLOCHAIN_RUST_HC_CORE_C_BINDING_H
  \<close>
  The only thing this file does happens at translation time: it is a small program for
  the C preprocessor, whose state is the table of defined macros and whose output is the
  text handed to the compiler. The header is embedded as exactly that: a function from
  the macro table to the new macro table and the emitted lines, with \<^verbatim>\<open>#ifndef\<close> and
  \<^verbatim>\<open>#ifdef\<close> as \<open>if\<close>, \<^verbatim>\<open>#define\<close> as an update of the table, a failed \<^verbatim>\<open>#include\<close> as an
  error value, and every text line passed through macro replacement. The function
  \<^verbatim>\<open>hc_new\<close> has no body in the source, so it has no model; only its declaration is
  embedded.
\<close>

subsection \<open>C types and declarations\<close>

text \<open>
  The types that a declaration can be built from: \<^verbatim>\<open>void\<close>, a typedef name, a pointer, and
  a structure type referred to by its tag.
\<close>

datatype ctype =
    Void
  | TypeName string
  | Pointer ctype
  | StructType string

datatype storage_class = Extern | Static | No_storage

text \<open>
  A file-scope declaration: \<^verbatim>\<open>typedef T name;\<close>, the definition of a structure with its
  members, or a function with its storage class, return type, name, parameter types and,
  when it is a definition and not a mere prototype, the statements of its body.
\<close>

datatype decl =
    Typedef_decl ctype string
  | Struct_decl string "(string \<times> ctype) list"
  | Function_decl storage_class ctype string "ctype list" "string list option"

subsection \<open>The preprocessor\<close>

text \<open>
  A line of text is a list of preprocessing tokens. To the preprocessor a keyword is an
  identifier like any other, so \<^verbatim>\<open>extern\<close> and \<^verbatim>\<open>void\<close> are \<open>Ident\<close> tokens.
\<close>

datatype token = Ident string | Number string | String_literal string | Punct string

text \<open>
  The macro table maps the name of each defined macro to its replacement list; the most
  recent definition comes first. The table holds object-like macros (\<^verbatim>\<open>#define X tokens\<close>);
  function-like macros are outside the model.
\<close>

type_synonym macros = "(string \<times> token list) list"

definition macro_defined :: "macros \<Rightarrow> string \<Rightarrow> bool" where
  "macro_defined m x = (map_of m x \<noteq> None)"

definition macro_define :: "string \<Rightarrow> token list \<Rightarrow> macros \<Rightarrow> macros" where
  "macro_define x r m = (x, r) # m"

definition macro_undef :: "string \<Rightarrow> macros \<Rightarrow> macros" where
  "macro_undef x m = filter (\<lambda>e. fst e \<noteq> x) m"

text \<open>
  Macro replacement of a line: an identifier that names a macro is replaced by the
  macro's replacement list, which is scanned again with that macro switched off; every
  other token stays.
\<close>

function replace_tokens :: "macros \<Rightarrow> token list \<Rightarrow> token list" where
  "replace_tokens m [] = []"
| "replace_tokens m (Ident x # ts) =
     (case map_of m x of
        None \<Rightarrow> [Ident x]
      | Some r \<Rightarrow> replace_tokens (macro_undef x m) r)
     @ replace_tokens m ts"
| "replace_tokens m (Number n # ts) = Number n # replace_tokens m ts"
| "replace_tokens m (String_literal s # ts) = String_literal s # replace_tokens m ts"
| "replace_tokens m (Punct p # ts) = Punct p # replace_tokens m ts"
  by pat_completeness auto
termination
proof (relation "measures [\<lambda>(m, ts). length m, \<lambda>(m, ts). length ts]")
  show "wf (measures [\<lambda>(m, ts). length m, \<lambda>(m :: macros, ts :: token list). length ts])"
    by simp
next
  fix m :: macros and x :: string and ts r :: "token list"
  assume "map_of m x = Some r"
  then have "(x, r) \<in> set m"
    by (rule map_of_SomeD)
  then have "length (macro_undef x m) < length m"
    unfolding macro_undef_def by (intro length_filter_less [where x = "(x, r)"]) simp_all
  then show "((macro_undef x m, r), (m, Ident x # ts))
      \<in> measures [\<lambda>(m, ts). length m, \<lambda>(m, ts). length ts]"
    by simp
qed simp_all

fun identifiers :: "token list \<Rightarrow> string list" where
  "identifiers [] = []"
| "identifiers (Ident x # ts) = x # identifiers ts"
| "identifiers (t # ts) = identifiers ts"

datatype include_form = Angle | Quoted

text \<open>
  What the header hands to the compiler, line by line: the opening of a linkage
  specification (\<^verbatim>\<open>extern "C" {\<close>), the closing brace, a declaration, a line that macro
  replacement has turned into other tokens, or the material brought in by one
  \<^verbatim>\<open>#include\<close>, kept apart from the header's own lines.
\<close>

datatype item =
    Linkage_open string
  | Linkage_close
  | Declaration decl
  | Text "token list"
  | Included include_form string "decl list"

text \<open>
  A text line of the header. When macro replacement leaves its tokens as they are written,
  the line is the item that these tokens spell; otherwise it is the replaced tokens.
\<close>

definition text_line :: "macros \<Rightarrow> token list \<Rightarrow> item \<Rightarrow> item" where
  "text_line m l it = (if replace_tokens m l = l then it else Text (replace_tokens m l))"

text \<open>
  The two included files are not part of the source. Each is a parameter: whatever the
  file is, preprocessing it maps the macro table to a new one and yields declarations. The
  resolver says which file, if any, an \<^verbatim>\<open>#include\<close> of a given form and path finds.
\<close>

type_synonym header_file = "macros \<Rightarrow> macros \<times> decl list"

type_synonym resolver = "include_form \<Rightarrow> string \<Rightarrow> header_file option"

datatype pp_error = Include_not_found include_form string

definition include_file ::
  "resolver \<Rightarrow> include_form \<Rightarrow> string \<Rightarrow> macros \<Rightarrow> pp_error + (macros \<times> item list)" where
  "include_file fs form path m =
     (case fs form path of
        None \<Rightarrow> Inl (Include_not_found form path)
      | Some h \<Rightarrow> (case h m of (m', ds) \<Rightarrow> Inr (m', [Included form path ds])))"

subsection \<open>The header\<close>

definition HOLOCHAIN_RUST_HC_CORE_C_BINDING_H :: string where
  "HOLOCHAIN_RUST_HC_CORE_C_BINDING_H = ''HOLOCHAIN_RUST_HC_CORE_C_BINDING_H''"

definition stdint_h :: string where
  "stdint_h = ''stdint.h''"

definition hc_dna_c_binding_h :: string where
  "hc_dna_c_binding_h = ''../../hc_dna_c_binding/include/hc_dna_c_binding.h''"

definition cplusplus :: string where
  "cplusplus = ''__cplusplus''"

text \<open>The four text lines, as tokens.\<close>

definition line_11 :: "token list" where
  "line_11 = [Ident ''extern'', String_literal ''C'', Punct ''{'']"

definition line_14 :: "token list" where
  "line_14 = [Ident ''typedef'', Ident ''void'', Ident ''Holochain'', Punct '';'']"

definition line_15 :: "token list" where
  "line_15 =
     [Ident ''extern'', Ident ''Holochain'', Punct ''*'', Ident ''hc_new'', Punct ''('',
      Ident ''Dna'', Punct ''*'', Punct '')'', Punct '';'']"

definition line_18 :: "token list" where
  "line_18 = [Punct ''}'']"

text \<open>What line 14 spells: \<^verbatim>\<open>typedef void Holochain;\<close>\<close>

definition Holochain :: decl where
  "Holochain = Typedef_decl Void ''Holochain''"

text \<open>What line 15 spells: \<^verbatim>\<open>extern Holochain *hc_new(Dna*);\<close>\<close>

definition hc_new :: decl where
  "hc_new =
     Function_decl Extern (Pointer (TypeName ''Holochain'')) ''hc_new''
       [Pointer (TypeName ''Dna'')] None"

text \<open>The header, directive by directive.\<close>

definition hc_core_api_c_binding_h ::
  "resolver \<Rightarrow> macros \<Rightarrow> pp_error + (macros \<times> item list)" where
  "hc_core_api_c_binding_h fs m =
     (if \<not> macro_defined m HOLOCHAIN_RUST_HC_CORE_C_BINDING_H then
        (case include_file fs Angle stdint_h
                (macro_define HOLOCHAIN_RUST_HC_CORE_C_BINDING_H [] m) of
           Inl e \<Rightarrow> Inl e
         | Inr (m1, i1) \<Rightarrow>
        (case include_file fs Quoted hc_dna_c_binding_h m1 of
           Inl e \<Rightarrow> Inl e
         | Inr (m2, i2) \<Rightarrow>
             Inr (m2,
               i1 @ i2
               @ (if macro_defined m2 cplusplus
                  then [text_line m2 line_11 (Linkage_open ''C'')] else [])
               @ [text_line m2 line_14 (Declaration Holochain),
                  text_line m2 line_15 (Declaration hc_new)]
               @ (if macro_defined m2 cplusplus
                  then [text_line m2 line_18 Linkage_close] else []))))
      else Inr (m, []))"


subsection \<open>Reading the emitted text\<close>

text \<open>The header's own lines, without the included material.\<close>

fun own_items :: "item list \<Rightarrow> item list" where
  "own_items [] = []"
| "own_items (Included form path ds # its) = own_items its"
| "own_items (it # its) = it # own_items its"

text \<open>The declarations among the header's own lines.\<close>

fun own_declarations :: "item list \<Rightarrow> decl list" where
  "own_declarations [] = []"
| "own_declarations (Declaration d # its) = d # own_declarations its"
| "own_declarations (it # its) = own_declarations its"

text \<open>The declarations that a given \<^verbatim>\<open>#include\<close> brought in.\<close>

fun included_from :: "include_form \<Rightarrow> string \<Rightarrow> item list \<Rightarrow> decl list" where
  "included_from form path [] = []"
| "included_from form path (Included form' path' ds # its) =
     (if form' = form \<and> path' = path then ds else []) @ included_from form path its"
| "included_from form path (it # its) = included_from form path its"

text \<open>What declarations introduce.\<close>

fun typedef_names :: "decl list \<Rightarrow> string list" where
  "typedef_names [] = []"
| "typedef_names (Typedef_decl t n # ds) = n # typedef_names ds"
| "typedef_names (d # ds) = typedef_names ds"

fun struct_members :: "decl list \<Rightarrow> (string \<times> (string \<times> ctype) list) list" where
  "struct_members [] = []"
| "struct_members (Struct_decl tag fs # ds) = (tag, fs) # struct_members ds"
| "struct_members (d # ds) = struct_members ds"

text \<open>The functions declared: name, return type, parameter types.\<close>

fun prototypes :: "decl list \<Rightarrow> (string \<times> ctype \<times> ctype list) list" where
  "prototypes [] = []"
| "prototypes (Function_decl sc r n ps b # ds) = (n, r, ps) # prototypes ds"
| "prototypes (d # ds) = prototypes ds"

text \<open>The functions that come with a body, that is, the function definitions.\<close>

fun function_bodies :: "decl list \<Rightarrow> (string \<times> string list) list" where
  "function_bodies [] = []"
| "function_bodies (Function_decl sc r n ps (Some b) # ds) = (n, b) # function_bodies ds"
| "function_bodies (d # ds) = function_bodies ds"

text \<open>
  The language linkage of each of the header's own declarations: that of the innermost
  open linkage specification, or none (the default of the language of the translation
  unit) outside every such block.
\<close>

fun linkages :: "string list \<Rightarrow> item list \<Rightarrow> (decl \<times> string option) list" where
  "linkages stk [] = []"
| "linkages stk (Linkage_open l # its) = linkages (l # stk) its"
| "linkages stk (Linkage_close # its) = linkages (tl stk) its"
| "linkages stk (Declaration d # its) =
     (d, case stk of [] \<Rightarrow> None | l # ls \<Rightarrow> Some l) # linkages stk its"
| "linkages stk (it # its) = linkages stk its"

subsection \<open>Conditions on the translation unit\<close>

text \<open>An included file leaves a macro name alone when it does not change what it stands for.\<close>

definition leaves_alone :: "string \<Rightarrow> resolver \<Rightarrow> bool" where
  "leaves_alone x fs =
     (\<forall>form path h m. fs form path = Some h \<longrightarrow> map_of (fst (h m)) x = map_of m x)"

text \<open>
  The identifiers that the four text lines spell, and the condition that the lines are
  compiled as they are written: none of these identifiers is a macro when the header is
  entered, and the included files leave all of them alone.
\<close>

definition spelled :: "string list" where
  "spelled = identifiers (line_11 @ line_14 @ line_15 @ line_18)"

definition spelling_kept :: "resolver \<Rightarrow> macros \<Rightarrow> bool" where
  "spelling_kept fs m = (\<forall>x \<in> set spelled. map_of m x = None \<and> leaves_alone x fs)"


text \<open>
  The macro table with which the text lines are reached in a first inclusion, when
  \<^verbatim>\<open><stdint.h>\<close> is the file \<open>h1\<close> and the DNA binding header is the file \<open>h2\<close>.
\<close>

definition table_at_text :: "header_file \<Rightarrow> header_file \<Rightarrow> macros \<Rightarrow> macros" where
  "table_at_text h1 h2 m =
     fst (h2 (fst (h1 (macro_define HOLOCHAIN_RUST_HC_CORE_C_BINDING_H [] m))))"

subsection \<open>The DNA binding header\<close>

text \<open>
  Modelled from the spec: the file \<^verbatim>\<open>hc_dna_c_binding.h\<close>, which is not among the sources.
  The spec says of it that \<^verbatim>\<open>Dna\<close> is a structure declared in that header and that its layout
  is defined there. The model declares the structure, with the layout left open (the
  parameter \<open>layout\<close>), and the type name \<^verbatim>\<open>Dna\<close> for it; what the file does to the macro
  table is left open as well (the parameter \<open>defs\<close>).
\<close>

definition hc_dna_c_binding_h_file ::
  "(macros \<Rightarrow> macros) \<Rightarrow> (string \<times> ctype) list \<Rightarrow> header_file" where
  "hc_dna_c_binding_h_file defs layout m =
     (defs m, [Struct_decl ''Dna'' layout, Typedef_decl (StructType ''Dna'') ''Dna''])"

subsection \<open>Sample environments\<close>

text \<open>
  Stand-ins for the two files that are not part of the source, used to run the header on
  concrete inputs: a \<^verbatim>\<open>stdint.h\<close> that only sets its own guard, and a file at the path of the
  DNA binding header that sets a guard and declares a structure and a type name.
\<close>

definition sample_stdint :: header_file where
  "sample_stdint m = (macro_define ''_STDINT_H'' [] m, [])"

definition sample_dna :: header_file where
  "sample_dna m =
     (macro_define ''HOLOCHAIN_RUST_HC_DNA_C_BINDING_H'' [] m,
      [Struct_decl ''Dna'' [(''name'', Pointer Void)], Typedef_decl (StructType ''Dna'') ''Dna''])"

definition sample_fs :: resolver where
  "sample_fs form path =
     (if form = Angle \<and> path = stdint_h then Some sample_stdint
      else if form = Quoted \<and> path = hc_dna_c_binding_h then Some sample_dna
      else None)"

text \<open>The same environment without the DNA binding header.\<close>

definition sample_fs_without_dna :: resolver where
  "sample_fs_without_dna form path =
     (if form = Angle \<and> path = stdint_h then Some sample_stdint else None)"



text \<open>An environment with the DNA binding header as the spec describes it.\<close>

definition sample_fs_spec :: resolver where
  "sample_fs_spec form path =
     (if form = Angle \<and> path = stdint_h then Some sample_stdint
      else if form = Quoted \<and> path = hc_dna_c_binding_h
        then Some (hc_dna_c_binding_h_file
          (macro_define ''HOLOCHAIN_RUST_HC_DNA_C_BINDING_H'' []) [(''name'', Pointer Void)])
      else None)"

section \<open>Properties\<close>

subsection \<open>Macro replacement\<close>

lemma replace_tokens_unchanged:
  "\<forall>x \<in> set (identifiers l). map_of m x = None \<Longrightarrow> replace_tokens m l = l"
  by (induction m l rule: replace_tokens.induct) simp_all

lemma text_line_as_written:
  "\<forall>x \<in> set (identifiers l). map_of m x = None \<Longrightarrow> text_line m l it = it"
  by (simp add: text_line_def replace_tokens_unchanged)

lemma set_spelled:
  "set spelled = {''extern'', ''typedef'', ''void'', ''Holochain'', ''hc_new'', ''Dna''}"
  by (auto simp: spelled_def line_11_def line_14_def line_15_def line_18_def)

lemma spelled_lines:
  "set (identifiers line_11) \<subseteq> set spelled" "set (identifiers line_14) \<subseteq> set spelled"
  "set (identifiers line_15) \<subseteq> set spelled" "set (identifiers line_18) \<subseteq> set spelled"
  by (simp_all add: set_spelled line_11_def line_14_def line_15_def line_18_def)

lemma guard_is_not_spelled: "HOLOCHAIN_RUST_HC_CORE_C_BINDING_H \<notin> set spelled"
  by (simp add: set_spelled HOLOCHAIN_RUST_HC_CORE_C_BINDING_H_def)

lemma guard_is_not_cplusplus: "cplusplus \<noteq> HOLOCHAIN_RUST_HC_CORE_C_BINDING_H"
  by (simp add: cplusplus_def HOLOCHAIN_RUST_HC_CORE_C_BINDING_H_def)

text \<open>A name that the included files leave alone stands for the same at the text lines
  as on entry, unless it is the guard.\<close>

lemma table_at_text_leaves_alone:
  assumes "leaves_alone x fs"
    and "fs Angle stdint_h = Some h1" and "fs Quoted hc_dna_c_binding_h = Some h2"
    and "x \<noteq> HOLOCHAIN_RUST_HC_CORE_C_BINDING_H"
  shows "map_of (table_at_text h1 h2 m) x = map_of m x"
proof -
  let ?m0 = "macro_define HOLOCHAIN_RUST_HC_CORE_C_BINDING_H [] m"
  have "map_of (fst (h2 (fst (h1 ?m0)))) x = map_of (fst (h1 ?m0)) x"
    using assms(1,3) unfolding leaves_alone_def by blast
  also have "\<dots> = map_of ?m0 x"
    using assms(1,2) unfolding leaves_alone_def by blast
  also have "\<dots> = map_of m x"
    using assms(4) by (simp add: macro_define_def)
  finally show ?thesis by (simp add: table_at_text_def)
qed

lemma table_at_text_spelling:
  assumes "spelling_kept fs m"
    and "fs Angle stdint_h = Some h1" and "fs Quoted hc_dna_c_binding_h = Some h2"
    and "x \<in> set spelled"
  shows "map_of (table_at_text h1 h2 m) x = None"
proof -
  from assms(1,4) have a: "map_of m x = None" and b: "leaves_alone x fs"
    unfolding spelling_kept_def by blast+
  from assms(4) guard_is_not_spelled have "x \<noteq> HOLOCHAIN_RUST_HC_CORE_C_BINDING_H"
    by blast
  with table_at_text_leaves_alone [OF b assms(2,3)] a show ?thesis by simp
qed

subsection \<open>The shape of one inclusion\<close>


text \<open>A first inclusion whose two files are found succeeds, whatever the macros.\<close>

lemma expands_when_includes_resolve:
  assumes "\<not> macro_defined m HOLOCHAIN_RUST_HC_CORE_C_BINDING_H"
    and "fs Angle stdint_h = Some h1" and "fs Quoted hc_dna_c_binding_h = Some h2"
  shows "\<exists>its. hc_core_api_c_binding_h fs m = Inr (table_at_text h1 h2 m, its)"
  using assms
  by (simp add: hc_core_api_c_binding_h_def include_file_def table_at_text_def
      split: prod.splits)

text \<open>
  When moreover its lines are compiled as written, this is what it yields.
\<close>

lemma first_inclusion:
  assumes "\<not> macro_defined m HOLOCHAIN_RUST_HC_CORE_C_BINDING_H"
    and "spelling_kept fs m"
    and "fs Angle stdint_h = Some h1" and "fs Quoted hc_dna_c_binding_h = Some h2"
  shows "hc_core_api_c_binding_h fs m =
     Inr (table_at_text h1 h2 m,
       [Included Angle stdint_h
          (snd (h1 (macro_define HOLOCHAIN_RUST_HC_CORE_C_BINDING_H [] m))),
        Included Quoted hc_dna_c_binding_h
          (snd (h2 (fst (h1 (macro_define HOLOCHAIN_RUST_HC_CORE_C_BINDING_H [] m)))))]
       @ (if macro_defined (table_at_text h1 h2 m) cplusplus then [Linkage_open ''C''] else [])
       @ [Declaration Holochain, Declaration hc_new]
       @ (if macro_defined (table_at_text h1 h2 m) cplusplus then [Linkage_close] else []))"
proof -
  obtain m1 d1 where r1: "h1 (macro_define HOLOCHAIN_RUST_HC_CORE_C_BINDING_H [] m) = (m1, d1)"
    by (cases "h1 (macro_define HOLOCHAIN_RUST_HC_CORE_C_BINDING_H [] m)")
  obtain m2 d2 where r2: "h2 m1 = (m2, d2)"
    by (cases "h2 m1")
  have t: "table_at_text h1 h2 m = m2"
    by (simp add: table_at_text_def r1 r2)
  have u: "\<forall>x \<in> set spelled. map_of m2 x = None"
    using table_at_text_spelling [OF assms(2,3,4)] t by simp
  have l: "text_line m2 line_11 it = it" "text_line m2 line_14 it = it"
    "text_line m2 line_15 it = it" "text_line m2 line_18 it = it" for it
    using u spelled_lines by (blast intro: text_line_as_written)+
  show ?thesis
    using assms(1,3,4)
    by (simp add: hc_core_api_c_binding_h_def include_file_def t r1 r2 l)
qed

lemma first_inclusion_result:
  assumes "\<not> macro_defined m HOLOCHAIN_RUST_HC_CORE_C_BINDING_H"
    and "spelling_kept fs m"
    and "fs Angle stdint_h = Some h1" and "fs Quoted hc_dna_c_binding_h = Some h2"
  shows "\<exists>its. hc_core_api_c_binding_h fs m = Inr (table_at_text h1 h2 m, its)
     \<and> own_declarations its = [Holochain, hc_new]
     \<and> own_items its =
         (if macro_defined (table_at_text h1 h2 m) cplusplus
          then [Linkage_open ''C'', Declaration Holochain, Declaration hc_new, Linkage_close]
          else [Declaration Holochain, Declaration hc_new])
     \<and> linkages [] its =
         (if macro_defined (table_at_text h1 h2 m) cplusplus
          then [(Holochain, Some ''C''), (hc_new, Some ''C'')]
          else [(Holochain, None), (hc_new, None)])
     \<and> included_from Quoted hc_dna_c_binding_h its =
         snd (h2 (fst (h1 (macro_define HOLOCHAIN_RUST_HC_CORE_C_BINDING_H [] m))))"
proof -
  have "stdint_h \<noteq> hc_dna_c_binding_h"
    by (simp add: stdint_h_def hc_dna_c_binding_h_def)
  then show ?thesis
    unfolding first_inclusion [OF assms] by simp
qed

subsection \<open>The sample environments\<close>

lemma leaves_alone_sample_fs:
  "x \<notin> {''_STDINT_H'', ''HOLOCHAIN_RUST_HC_DNA_C_BINDING_H''} \<Longrightarrow> leaves_alone x sample_fs"
  by (auto simp: leaves_alone_def sample_fs_def sample_stdint_def sample_dna_def
      macro_define_def split: if_splits)

lemma spelling_kept_sample_fs:
  "\<forall>x \<in> set spelled. map_of m x = None \<Longrightarrow> spelling_kept sample_fs m"
  unfolding spelling_kept_def
  by (auto simp: set_spelled intro!: leaves_alone_sample_fs)


lemma sample_fs_resolves:
  "sample_fs Angle stdint_h = Some sample_stdint"
  "sample_fs Quoted hc_dna_c_binding_h = Some sample_dna"
  by (simp_all add: sample_fs_def)

lemma sample_inclusion_C:
  "hc_core_api_c_binding_h sample_fs [] =
     Inr ([(''HOLOCHAIN_RUST_HC_DNA_C_BINDING_H'', []), (''_STDINT_H'', []),
           (''HOLOCHAIN_RUST_HC_CORE_C_BINDING_H'', [])],
          [Included Angle ''stdint.h'' [],
           Included Quoted ''../../hc_dna_c_binding/include/hc_dna_c_binding.h''
             [Struct_decl ''Dna'' [(''name'', Pointer Void)],
              Typedef_decl (StructType ''Dna'') ''Dna''],
           Declaration Holochain, Declaration hc_new])"
  by (simp add: hc_core_api_c_binding_h_def include_file_def sample_fs_def sample_stdint_def
      sample_dna_def HOLOCHAIN_RUST_HC_CORE_C_BINDING_H_def stdint_h_def hc_dna_c_binding_h_def
      cplusplus_def macro_defined_def macro_define_def macro_undef_def text_line_def
      line_11_def line_14_def line_15_def line_18_def)

lemma sample_inclusion_Cxx:
  "hc_core_api_c_binding_h sample_fs [(cplusplus, [Number ''201703L''])] =
     Inr ([(''HOLOCHAIN_RUST_HC_DNA_C_BINDING_H'', []), (''_STDINT_H'', []),
           (''HOLOCHAIN_RUST_HC_CORE_C_BINDING_H'', []), (''__cplusplus'', [Number ''201703L''])],
          [Included Angle ''stdint.h'' [],
           Included Quoted ''../../hc_dna_c_binding/include/hc_dna_c_binding.h''
             [Struct_decl ''Dna'' [(''name'', Pointer Void)],
              Typedef_decl (StructType ''Dna'') ''Dna''],
           Linkage_open ''C'', Declaration Holochain, Declaration hc_new, Linkage_close])"
  by (simp add: hc_core_api_c_binding_h_def include_file_def sample_fs_def sample_stdint_def
      sample_dna_def HOLOCHAIN_RUST_HC_CORE_C_BINDING_H_def stdint_h_def hc_dna_c_binding_h_def
      cplusplus_def macro_defined_def macro_define_def macro_undef_def text_line_def
      line_11_def line_14_def line_15_def line_18_def)

text \<open>
  With \<^verbatim>\<open>hc_new\<close> defined as a macro for \<^verbatim>\<open>hc_create\<close>, line 15 is emitted with the other name;
  with \<^verbatim>\<open>extern\<close> defined as \<^verbatim>\<open>static\<close>, it is emitted with the other storage class.
\<close>

lemma sample_inclusion_renamed:
  "hc_core_api_c_binding_h sample_fs [(''hc_new'', [Ident ''hc_create''])] =
     Inr ([(''HOLOCHAIN_RUST_HC_DNA_C_BINDING_H'', []), (''_STDINT_H'', []),
           (''HOLOCHAIN_RUST_HC_CORE_C_BINDING_H'', []), (''hc_new'', [Ident ''hc_create''])],
          [Included Angle ''stdint.h'' [],
           Included Quoted ''../../hc_dna_c_binding/include/hc_dna_c_binding.h''
             [Struct_decl ''Dna'' [(''name'', Pointer Void)],
              Typedef_decl (StructType ''Dna'') ''Dna''],
           Declaration Holochain,
           Text [Ident ''extern'', Ident ''Holochain'', Punct ''*'', Ident ''hc_create'',
                 Punct ''('', Ident ''Dna'', Punct ''*'', Punct '')'', Punct '';'']])"
  by (simp add: hc_core_api_c_binding_h_def include_file_def sample_fs_def sample_stdint_def
      sample_dna_def HOLOCHAIN_RUST_HC_CORE_C_BINDING_H_def stdint_h_def hc_dna_c_binding_h_def
      cplusplus_def macro_defined_def macro_define_def macro_undef_def text_line_def
      line_11_def line_14_def line_15_def line_18_def)

lemma sample_inclusion_static:
  "hc_core_api_c_binding_h sample_fs [(''extern'', [Ident ''static''])] =
     Inr ([(''HOLOCHAIN_RUST_HC_DNA_C_BINDING_H'', []), (''_STDINT_H'', []),
           (''HOLOCHAIN_RUST_HC_CORE_C_BINDING_H'', []), (''extern'', [Ident ''static''])],
          [Included Angle ''stdint.h'' [],
           Included Quoted ''../../hc_dna_c_binding/include/hc_dna_c_binding.h''
             [Struct_decl ''Dna'' [(''name'', Pointer Void)],
              Typedef_decl (StructType ''Dna'') ''Dna''],
           Declaration Holochain,
           Text [Ident ''static'', Ident ''Holochain'', Punct ''*'', Ident ''hc_new'',
                 Punct ''('', Ident ''Dna'', Punct ''*'', Punct '')'', Punct '';'']])"
  by (simp add: hc_core_api_c_binding_h_def include_file_def sample_fs_def sample_stdint_def
      sample_dna_def HOLOCHAIN_RUST_HC_CORE_C_BINDING_H_def stdint_h_def hc_dna_c_binding_h_def
      cplusplus_def macro_defined_def macro_define_def macro_undef_def text_line_def
      line_11_def line_14_def line_15_def line_18_def)

subsection \<open>What the header declares\<close>

text \<open>
  C1. In a first inclusion (the guard is not defined) whose two included files are found
  and in which the header's lines are compiled as written (none of their identifiers is a
  macro), the header expands, and it declares exactly one function: it is named
  \<^verbatim>\<open>hc_new\<close>, its return type is pointer to \<^verbatim>\<open>Holochain\<close>, and its parameter list is the single
  type pointer to \<^verbatim>\<open>Dna\<close>. The name \<^verbatim>\<open>Holochain\<close> of the return type is the typedef that the
  header itself declares, so what a call returns has the type pointer to the header's
  handle type.
\<close>

theorem hc_new_signature:
  assumes "\<not> macro_defined m HOLOCHAIN_RUST_HC_CORE_C_BINDING_H"
    and "spelling_kept fs m"
    and "fs Angle stdint_h = Some h1" and "fs Quoted hc_dna_c_binding_h = Some h2"
  shows "\<exists>m' its. hc_core_api_c_binding_h fs m = Inr (m', its)
       \<and> prototypes (own_declarations its) =
           [(''hc_new'', Pointer (TypeName ''Holochain''), [Pointer (TypeName ''Dna'')])]
       \<and> typedef_names (own_declarations its) = [''Holochain'']"
proof -
  from first_inclusion_result [OF assms] obtain its where
    "hc_core_api_c_binding_h fs m = Inr (table_at_text h1 h2 m, its)"
    "own_declarations its = [Holochain, hc_new]"
    by blast
  then show ?thesis
    by (simp add: Holochain_def hc_new_def)
qed

theorem hc_new_signature_witness:
  "hc_core_api_c_binding_h sample_fs [] =
     Inr ([(''HOLOCHAIN_RUST_HC_DNA_C_BINDING_H'', []), (''_STDINT_H'', []),
           (''HOLOCHAIN_RUST_HC_CORE_C_BINDING_H'', [])],
          [Included Angle ''stdint.h'' [],
           Included Quoted ''../../hc_dna_c_binding/include/hc_dna_c_binding.h''
             [Struct_decl ''Dna'' [(''name'', Pointer Void)],
              Typedef_decl (StructType ''Dna'') ''Dna''],
           Declaration Holochain, Declaration hc_new])
 \<and> prototypes [Holochain, hc_new] =
     [(''hc_new'', Pointer (TypeName ''Holochain''), [Pointer (TypeName ''Dna'')])]
 \<and> typedef_names [Holochain, hc_new] = [''Holochain'']"
proof -
  have g: "\<not> macro_defined [] HOLOCHAIN_RUST_HC_CORE_C_BINDING_H"
    by (simp add: macro_defined_def)
  have k: "spelling_kept sample_fs []"
    by (rule spelling_kept_sample_fs) simp
  from hc_new_signature [OF g k sample_fs_resolves] show ?thesis
    by (simp add: sample_inclusion_C)
qed

text \<open>
  C3. In a first inclusion whose two included files are found and in which the header's
  lines are compiled as written, the header expands and its own declarations are exactly
  two: the typedef \<^verbatim>\<open>Holochain\<close> for \<^verbatim>\<open>void\<close> and the function \<^verbatim>\<open>hc_new\<close>. So \<^verbatim>\<open>Holochain\<close> is the only
  type it declares, it defines no structure, \<^verbatim>\<open>hc_new\<close> is the only function, and no declared
  function takes the handle as a parameter: there is no function that could release it.
\<close>

theorem hc_new_is_the_only_entry_point:
  assumes "\<not> macro_defined m HOLOCHAIN_RUST_HC_CORE_C_BINDING_H"
    and "spelling_kept fs m"
    and "fs Angle stdint_h = Some h1" and "fs Quoted hc_dna_c_binding_h = Some h2"
  shows "\<exists>m' its. hc_core_api_c_binding_h fs m = Inr (m', its)
       \<and> own_declarations its =
           [Typedef_decl Void ''Holochain'',
            Function_decl Extern (Pointer (TypeName ''Holochain'')) ''hc_new''
              [Pointer (TypeName ''Dna'')] None]
       \<and> typedef_names (own_declarations its) = [''Holochain'']
       \<and> struct_members (own_declarations its) = []
       \<and> map fst (prototypes (own_declarations its)) = [''hc_new'']
       \<and> filter (\<lambda>p. Pointer (TypeName ''Holochain'') \<in> set (snd (snd p)))
           (prototypes (own_declarations its)) = []"
proof -
  from first_inclusion_result [OF assms] obtain its where
    "hc_core_api_c_binding_h fs m = Inr (table_at_text h1 h2 m, its)"
    "own_declarations its = [Holochain, hc_new]"
    by blast
  then show ?thesis
    by (simp add: Holochain_def hc_new_def)
qed

theorem hc_new_is_the_only_entry_point_witness:
  "hc_core_api_c_binding_h sample_fs [(cplusplus, [Number ''201703L''])] =
     Inr ([(''HOLOCHAIN_RUST_HC_DNA_C_BINDING_H'', []), (''_STDINT_H'', []),
           (''HOLOCHAIN_RUST_HC_CORE_C_BINDING_H'', []), (''__cplusplus'', [Number ''201703L''])],
          [Included Angle ''stdint.h'' [],
           Included Quoted ''../../hc_dna_c_binding/include/hc_dna_c_binding.h''
             [Struct_decl ''Dna'' [(''name'', Pointer Void)],
              Typedef_decl (StructType ''Dna'') ''Dna''],
           Linkage_open ''C'', Declaration Holochain, Declaration hc_new, Linkage_close])
 \<and> own_declarations
       [Included Angle ''stdint.h'' [],
           Included Quoted ''../../hc_dna_c_binding/include/hc_dna_c_binding.h''
             [Struct_decl ''Dna'' [(''name'', Pointer Void)],
              Typedef_decl (StructType ''Dna'') ''Dna''],
           Linkage_open ''C'', Declaration Holochain, Declaration hc_new, Linkage_close]
     = [Typedef_decl Void ''Holochain'',
        Function_decl Extern (Pointer (TypeName ''Holochain'')) ''hc_new''
          [Pointer (TypeName ''Dna'')] None]"
proof -
  have g: "\<not> macro_defined [(cplusplus, [Number ''201703L''])]
      HOLOCHAIN_RUST_HC_CORE_C_BINDING_H"
    by (simp add: macro_defined_def cplusplus_def HOLOCHAIN_RUST_HC_CORE_C_BINDING_H_def)
  have k: "spelling_kept sample_fs [(cplusplus, [Number ''201703L''])]"
    by (rule spelling_kept_sample_fs) (simp add: set_spelled cplusplus_def)
  from hc_new_is_the_only_entry_point [OF g k sample_fs_resolves] show ?thesis
    by (simp add: sample_inclusion_Cxx)
qed

subsection \<open>Linkage\<close>

text \<open>
  C6. In a first inclusion whose two included files are found and in which the header's
  lines are compiled as written, the header expands. When the translation unit is C++
  (\<^verbatim>\<open>__cplusplus\<close> is defined, and the included files leave that macro alone), the header's
  own lines are the two declarations between \<^verbatim>\<open>extern "C" {\<close> and the closing brace, and both
  declarations, \<^verbatim>\<open>hc_new\<close> among them, get C language linkage. In a C translation unit the
  same two declarations are emitted bare, with the default linkage of the language.
\<close>

theorem declarations_have_C_linkage:
  assumes "\<not> macro_defined m HOLOCHAIN_RUST_HC_CORE_C_BINDING_H"
    and "spelling_kept fs m"
    and "fs Angle stdint_h = Some h1" and "fs Quoted hc_dna_c_binding_h = Some h2"
    and "leaves_alone cplusplus fs"
  shows "\<exists>m' its. hc_core_api_c_binding_h fs m = Inr (m', its)
       \<and> own_items its =
           (if macro_defined m cplusplus
            then [Linkage_open ''C'', Declaration Holochain, Declaration hc_new, Linkage_close]
            else [Declaration Holochain, Declaration hc_new])
       \<and> linkages [] its =
           (if macro_defined m cplusplus
            then [(Holochain, Some ''C''), (hc_new, Some ''C'')]
            else [(Holochain, None), (hc_new, None)])"
proof -
  have "map_of (table_at_text h1 h2 m) cplusplus = map_of m cplusplus"
    using assms(5,3,4) guard_is_not_cplusplus by (rule table_at_text_leaves_alone)
  then have c: "macro_defined (table_at_text h1 h2 m) cplusplus = macro_defined m cplusplus"
    by (simp add: macro_defined_def)
  from first_inclusion_result [OF assms(1-4)] show ?thesis
    unfolding c by blast
qed

theorem declarations_have_C_linkage_witness:
  "hc_core_api_c_binding_h sample_fs [(cplusplus, [Number ''201703L''])] =
     Inr ([(''HOLOCHAIN_RUST_HC_DNA_C_BINDING_H'', []), (''_STDINT_H'', []),
           (''HOLOCHAIN_RUST_HC_CORE_C_BINDING_H'', []), (''__cplusplus'', [Number ''201703L''])],
          [Included Angle ''stdint.h'' [],
           Included Quoted ''../../hc_dna_c_binding/include/hc_dna_c_binding.h''
             [Struct_decl ''Dna'' [(''name'', Pointer Void)],
              Typedef_decl (StructType ''Dna'') ''Dna''],
           Linkage_open ''C'', Declaration Holochain, Declaration hc_new, Linkage_close])
 \<and> linkages []
       [Included Angle ''stdint.h'' [],
           Included Quoted ''../../hc_dna_c_binding/include/hc_dna_c_binding.h''
             [Struct_decl ''Dna'' [(''name'', Pointer Void)],
              Typedef_decl (StructType ''Dna'') ''Dna''],
           Linkage_open ''C'', Declaration Holochain, Declaration hc_new, Linkage_close]
     = [(Holochain, Some ''C''), (hc_new, Some ''C'')]"
proof -
  have g: "\<not> macro_defined [(cplusplus, [Number ''201703L''])]
      HOLOCHAIN_RUST_HC_CORE_C_BINDING_H"
    by (simp add: macro_defined_def cplusplus_def HOLOCHAIN_RUST_HC_CORE_C_BINDING_H_def)
  have k: "spelling_kept sample_fs [(cplusplus, [Number ''201703L''])]"
    by (rule spelling_kept_sample_fs) (simp add: set_spelled cplusplus_def)
  have l: "leaves_alone cplusplus sample_fs"
    by (rule leaves_alone_sample_fs) (simp add: cplusplus_def)
  have d: "macro_defined [(cplusplus, [Number ''201703L''])] cplusplus"
    by (simp add: macro_defined_def)
  from declarations_have_C_linkage [OF g k sample_fs_resolves l] d show ?thesis
    by (simp add: sample_inclusion_Cxx)
qed

subsection \<open>The dependency on the DNA binding header\<close>

lemma missing_dna_header_fails:
  "hc_core_api_c_binding_h sample_fs_without_dna [] =
     Inl (Include_not_found Quoted ''../../hc_dna_c_binding/include/hc_dna_c_binding.h'')"
  by (simp add: hc_core_api_c_binding_h_def include_file_def sample_fs_without_dna_def
      sample_stdint_def HOLOCHAIN_RUST_HC_CORE_C_BINDING_H_def stdint_h_def
      hc_dna_c_binding_h_def macro_defined_def macro_define_def)

lemma spelling_kept_sample_fs_spec:
  "\<forall>x \<in> set spelled. map_of m x = None \<Longrightarrow> spelling_kept sample_fs_spec m"
  unfolding spelling_kept_def
  by (auto simp: set_spelled leaves_alone_def sample_fs_spec_def sample_stdint_def
      hc_dna_c_binding_h_file_def macro_define_def split: if_splits)

text \<open>
  C7. In a first inclusion in which \<^verbatim>\<open><stdint.h>\<close> is found, the header fails when the
  \<^verbatim>\<open>#include\<close> of \<^verbatim>\<open>"../../hc_dna_c_binding/include/hc_dna_c_binding.h"\<close> finds no file. When it
  finds the DNA binding header, the header expands, and the emitted text holds the
  definition of the structure \<^verbatim>\<open>Dna\<close> and the type name \<^verbatim>\<open>Dna\<close> exactly as that file declares
  them; the parameter of \<^verbatim>\<open>hc_new\<close> is a pointer to that type name, and the header's own lines
  declare neither a type of that name nor any structure.
\<close>

theorem Dna_comes_from_the_dna_header:
  assumes "\<not> macro_defined m HOLOCHAIN_RUST_HC_CORE_C_BINDING_H"
    and "spelling_kept fs m"
    and "fs Angle stdint_h = Some h1"
  shows "(fs Quoted hc_dna_c_binding_h = None \<longrightarrow>
            hc_core_api_c_binding_h fs m = Inl (Include_not_found Quoted hc_dna_c_binding_h))
       \<and> (fs Quoted hc_dna_c_binding_h = Some (hc_dna_c_binding_h_file defs layout) \<longrightarrow>
            (\<exists>m' its. hc_core_api_c_binding_h fs m = Inr (m', its)
               \<and> included_from Quoted hc_dna_c_binding_h its =
                   [Struct_decl ''Dna'' layout, Typedef_decl (StructType ''Dna'') ''Dna'']
               \<and> map (\<lambda>p. snd (snd p)) (prototypes (own_declarations its)) =
                   [[Pointer (TypeName ''Dna'')]]
               \<and> ''Dna'' \<notin> set (typedef_names (own_declarations its))
               \<and> struct_members (own_declarations its) = []))"
proof (intro conjI impI)
  assume "fs Quoted hc_dna_c_binding_h = None"
  with assms(1,3) show
    "hc_core_api_c_binding_h fs m = Inl (Include_not_found Quoted hc_dna_c_binding_h)"
    by (simp add: hc_core_api_c_binding_h_def include_file_def split: prod.splits)
next
  assume f2: "fs Quoted hc_dna_c_binding_h = Some (hc_dna_c_binding_h_file defs layout)"
  from first_inclusion_result [OF assms f2] obtain its where
    "hc_core_api_c_binding_h fs m
       = Inr (table_at_text h1 (hc_dna_c_binding_h_file defs layout) m, its)"
    "own_declarations its = [Holochain, hc_new]"
    "included_from Quoted hc_dna_c_binding_h its =
       snd (hc_dna_c_binding_h_file defs layout
         (fst (h1 (macro_define HOLOCHAIN_RUST_HC_CORE_C_BINDING_H [] m))))"
    by blast
  then show "\<exists>m' its. hc_core_api_c_binding_h fs m = Inr (m', its)
      \<and> included_from Quoted hc_dna_c_binding_h its =
          [Struct_decl ''Dna'' layout, Typedef_decl (StructType ''Dna'') ''Dna'']
      \<and> map (\<lambda>p. snd (snd p)) (prototypes (own_declarations its)) =
          [[Pointer (TypeName ''Dna'')]]
      \<and> ''Dna'' \<notin> set (typedef_names (own_declarations its))
      \<and> struct_members (own_declarations its) = []"
    by (simp add: Holochain_def hc_new_def hc_dna_c_binding_h_file_def)
qed

theorem Dna_comes_from_the_dna_header_witness:
  "hc_core_api_c_binding_h sample_fs_spec [] =
     Inr ([(''HOLOCHAIN_RUST_HC_DNA_C_BINDING_H'', []), (''_STDINT_H'', []),
           (''HOLOCHAIN_RUST_HC_CORE_C_BINDING_H'', [])],
          [Included Angle ''stdint.h'' [],
           Included Quoted ''../../hc_dna_c_binding/include/hc_dna_c_binding.h''
             [Struct_decl ''Dna'' [(''name'', Pointer Void)],
              Typedef_decl (StructType ''Dna'') ''Dna''],
           Declaration Holochain, Declaration hc_new])
 \<and> included_from Quoted hc_dna_c_binding_h
      [Included Angle ''stdint.h'' [],
       Included Quoted ''../../hc_dna_c_binding/include/hc_dna_c_binding.h''
         [Struct_decl ''Dna'' [(''name'', Pointer Void)],
          Typedef_decl (StructType ''Dna'') ''Dna''],
       Declaration Holochain, Declaration hc_new]
    = [Struct_decl ''Dna'' [(''name'', Pointer Void)], Typedef_decl (StructType ''Dna'') ''Dna'']
 \<and> ''Dna'' \<notin> set (typedef_names [Holochain, hc_new])"
proof -
  have g: "\<not> macro_defined [] HOLOCHAIN_RUST_HC_CORE_C_BINDING_H"
    by (simp add: macro_defined_def)
  have k: "spelling_kept sample_fs_spec []"
    by (rule spelling_kept_sample_fs_spec) simp
  have f1: "sample_fs_spec Angle stdint_h = Some sample_stdint"
    by (simp add: sample_fs_spec_def)
  have f2: "sample_fs_spec Quoted hc_dna_c_binding_h =
      Some (hc_dna_c_binding_h_file
        (macro_define ''HOLOCHAIN_RUST_HC_DNA_C_BINDING_H'' []) [(''name'', Pointer Void)])"
    by (simp add: sample_fs_spec_def stdint_h_def hc_dna_c_binding_h_def)
  have r: "hc_core_api_c_binding_h sample_fs_spec [] =
     Inr ([(''HOLOCHAIN_RUST_HC_DNA_C_BINDING_H'', []), (''_STDINT_H'', []),
           (''HOLOCHAIN_RUST_HC_CORE_C_BINDING_H'', [])],
          [Included Angle ''stdint.h'' [],
           Included Quoted ''../../hc_dna_c_binding/include/hc_dna_c_binding.h''
             [Struct_decl ''Dna'' [(''name'', Pointer Void)],
              Typedef_decl (StructType ''Dna'') ''Dna''],
           Declaration Holochain, Declaration hc_new])"
    by (simp add: hc_core_api_c_binding_h_def include_file_def sample_fs_spec_def
      sample_stdint_def hc_dna_c_binding_h_file_def HOLOCHAIN_RUST_HC_CORE_C_BINDING_H_def
      stdint_h_def hc_dna_c_binding_h_def cplusplus_def macro_defined_def macro_define_def
      macro_undef_def text_line_def line_11_def line_14_def line_15_def line_18_def)
  from Dna_comes_from_the_dna_header [OF g k f1,
      of "macro_define ''HOLOCHAIN_RUST_HC_DNA_C_BINDING_H'' []" "[(''name'', Pointer Void)]"]
    f2 r
  show ?thesis
    by (simp add: hc_dna_c_binding_h_def)
qed

subsection \<open>Declarations only\<close>

text \<open>
  C8. In a first inclusion whose two included files are found and in which the header's
  lines are compiled as written, the header expands and each of its own lines is one of
  four: the opening of the \<^verbatim>\<open>extern "C"\<close> block, its closing brace, the typedef, or the
  declaration of \<^verbatim>\<open>hc_new\<close>. Every function it declares is \<^verbatim>\<open>hc_new\<close>, declared \<^verbatim>\<open>extern\<close> and
  without a body; no function definition, and with it no statement, is emitted.
\<close>

theorem header_holds_declarations_only:
  assumes "\<not> macro_defined m HOLOCHAIN_RUST_HC_CORE_C_BINDING_H"
    and "spelling_kept fs m"
    and "fs Angle stdint_h = Some h1" and "fs Quoted hc_dna_c_binding_h = Some h2"
  shows "\<exists>m' its. hc_core_api_c_binding_h fs m = Inr (m', its)
       \<and> set (own_items its) \<subseteq>
           {Linkage_open ''C'', Linkage_close, Declaration Holochain, Declaration hc_new}
       \<and> function_bodies (own_declarations its) = []
       \<and> (\<forall>sc r n ps b. Function_decl sc r n ps b \<in> set (own_declarations its) \<longrightarrow>
            n = ''hc_new'' \<and> sc = Extern \<and> b = None)"
proof -
  from first_inclusion_result [OF assms] obtain its where
    a: "hc_core_api_c_binding_h fs m = Inr (table_at_text h1 h2 m, its)"
    and b: "own_declarations its = [Holochain, hc_new]"
    and c: "own_items its =
         (if macro_defined (table_at_text h1 h2 m) cplusplus
          then [Linkage_open ''C'', Declaration Holochain, Declaration hc_new, Linkage_close]
          else [Declaration Holochain, Declaration hc_new])"
    by blast
  have "set (own_items its) \<subseteq>
      {Linkage_open ''C'', Linkage_close, Declaration Holochain, Declaration hc_new}"
    unfolding c by simp
  moreover have "function_bodies (own_declarations its) = []"
    unfolding b by (simp add: Holochain_def hc_new_def)
  moreover have "\<forall>sc r n ps b. Function_decl sc r n ps b \<in> set (own_declarations its) \<longrightarrow>
      n = ''hc_new'' \<and> sc = Extern \<and> b = None"
    unfolding b by (simp add: Holochain_def hc_new_def)
  ultimately show ?thesis using a by blast
qed

theorem header_holds_declarations_only_witness:
  "hc_core_api_c_binding_h sample_fs [] =
     Inr ([(''HOLOCHAIN_RUST_HC_DNA_C_BINDING_H'', []), (''_STDINT_H'', []),
           (''HOLOCHAIN_RUST_HC_CORE_C_BINDING_H'', [])],
          [Included Angle ''stdint.h'' [],
           Included Quoted ''../../hc_dna_c_binding/include/hc_dna_c_binding.h''
             [Struct_decl ''Dna'' [(''name'', Pointer Void)],
              Typedef_decl (StructType ''Dna'') ''Dna''],
           Declaration Holochain, Declaration hc_new])
 \<and> function_bodies [Holochain, hc_new] = []
 \<and> hc_new = Function_decl Extern (Pointer (TypeName ''Holochain'')) ''hc_new''
     [Pointer (TypeName ''Dna'')] None"
proof -
  have g: "\<not> macro_defined [] HOLOCHAIN_RUST_HC_CORE_C_BINDING_H"
    by (simp add: macro_defined_def)
  have k: "spelling_kept sample_fs []"
    by (rule spelling_kept_sample_fs) simp
  from header_holds_declarations_only [OF g k sample_fs_resolves] show ?thesis
    by (simp add: sample_inclusion_C hc_new_def)
qed

subsection \<open>The include guard\<close>







end
